theory Spec2Isabelle
  imports Main "HOL-Library.Sublist"
begin

section \<open>Python strings and slices\<close>

text \<open>
  A Python \<open>str\<close> is modelled as a \<open>string\<close>, one \<open>char\<close> for each character of
  the \<open>str\<close>. The handlers only measure, slice, concatenate and search their texts, so the
  helper functions below are written for lists of any element type; the token lists of the
  prompt handler use them as well.

  \<open>sub in text\<close> on two \<open>str\<close> values is the substring test: is there a position of
  \<open>text\<close> at which \<open>sub\<close> starts. The empty string occurs in every string.
\<close>

fun str_in :: "'a list \<Rightarrow> 'a list \<Rightarrow> bool" where
  "str_in sub [] = (sub = [])"
| "str_in sub (c # cs) = (prefix sub (c # cs) \<or> str_in sub cs)"

text \<open>
  \<open>xs[n:]\<close> and \<open>xs[:n]\<close> with Python's rule for a negative bound: it counts from the
  end, and a bound that falls outside the sequence is clipped to it.
\<close>

definition slice_from :: "'a list \<Rightarrow> int \<Rightarrow> 'a list" where
  "slice_from xs n =
     (if 0 \<le> n then drop (nat n) xs else drop (nat (int (length xs) + n)) xs)"

definition slice_to :: "'a list \<Rightarrow> int \<Rightarrow> 'a list" where
  "slice_to xs n =
     (if 0 \<le> n then take (nat n) xs else take (nat (int (length xs) + n)) xs)"

section \<open>Token streaming handlers\<close>

text \<open>
  \<open>TokenStreamingHandler\<close> is an abstract callback: \<open>__call__\<close> takes the received text
  and returns a text, with whatever effect the implementation has. An implementation is a
  function on its own state \<open>'h\<close>. The callers below discard the returned text.
\<close>

type_synonym 'h TokenStreamingHandler = "string \<Rightarrow> 'h \<Rightarrow> string \<times> 'h"

text \<open>
  \<open>DefaultTokenStreamingHandler\<close> prints the token (no line end, flushed) and returns it.
  Its state is the standard output, kept as the list of the texts written so far, one entry
  for each \<open>print\<close>.
\<close>

definition DefaultTokenStreamingHandler_call :: "string list TokenStreamingHandler" where
  "DefaultTokenStreamingHandler_call token_received stdout =
     (token_received, stdout @ [token_received])"

text \<open>
  What a wrapping handler can touch of the wrapped one: the wrapped handler's state, and the
  record of the calls made to it (the argument of each call, oldest first). \<open>invoke\<close> is one
  call of the wrapped handler.
\<close>

record 'h world =
  handler_state :: 'h
  handler_calls :: "string list"

definition invoke :: "'h TokenStreamingHandler \<Rightarrow> string \<Rightarrow> 'h world \<Rightarrow> string \<times> 'h world" where
  "invoke h token_received w =
     (case h token_received (handler_state w) of
        (returned, s) \<Rightarrow>
          (returned, \<lparr>handler_state = s, handler_calls = handler_calls w @ [token_received]\<rparr>))"

subsection \<open>AnthropicTokenStreamingHandler\<close>

record 'h AnthropicTokenStreamingHandler =
  token_handler :: "'h TokenStreamingHandler"
  previous_text :: string

definition AnthropicTokenStreamingHandler_init ::
  "'h TokenStreamingHandler \<Rightarrow> 'h AnthropicTokenStreamingHandler" where
  "AnthropicTokenStreamingHandler_init h = \<lparr>token_handler = h, previous_text = []\<rparr>"

text \<open>
  The guard that opens \<open>__call__\<close>: when the previous text does not occur in the received
  text, the previous text is emptied.
\<close>

definition is_reused :: "'h AnthropicTokenStreamingHandler \<Rightarrow> string \<Rightarrow> bool" where
  "is_reused self token_received = (\<not> str_in (previous_text self) token_received)"

definition cleanup :: "'h AnthropicTokenStreamingHandler \<Rightarrow> string \<Rightarrow> 'h AnthropicTokenStreamingHandler" where
  "cleanup self token_received =
     (if is_reused self token_received then self\<lparr>previous_text := []\<rparr> else self)"

text \<open>
  \<open>__call__\<close>: the guard, then the received text is cut at the length of the previous text,
  the cut text goes to the wrapped handler, the received text is stored and the cut text is
  returned. The result is the returned text, the handler after the call, and the world after
  the call.
\<close>

definition AnthropicTokenStreamingHandler_call ::
  "'h AnthropicTokenStreamingHandler \<Rightarrow> string \<Rightarrow> 'h world
     \<Rightarrow> string \<times> 'h AnthropicTokenStreamingHandler \<times> 'h world" where
  "AnthropicTokenStreamingHandler_call self token_received w =
     (let self1 = cleanup self token_received;
          previous_text_length = int (length (previous_text self1));
          chopped_text = slice_from token_received previous_text_length;
          w1 = snd (invoke (token_handler self1) chopped_text w);
          self2 = self1\<lparr>previous_text := token_received\<rparr>
      in (chopped_text, self2, w1))"

subsection \<open>HFTokenStreamingHandler\<close>

text \<open>
  The subclass of the library's \<open>TextStreamer\<close>; the tokenizer goes to the base class and
  \<open>on_finalized_text\<close> only uses the stream handler. It returns nothing.
\<close>

record 'h HFTokenStreamingHandler =
  hf_token_handler :: "'h TokenStreamingHandler"

definition on_finalized_text :: "'h HFTokenStreamingHandler \<Rightarrow> string \<Rightarrow> bool \<Rightarrow> 'h world \<Rightarrow> 'h world" where
  "on_finalized_text self token stream_end w =
     (let token_to_send = (if stream_end then token @ [CHR 0x0A] else token)
      in snd (invoke (hf_token_handler self) token_to_send w))"

section \<open>DefaultPromptHandler\<close>

text \<open>
  The tokenizer comes from the library (\<open>AutoTokenizer.from_pretrained\<close>); the handler uses
  two of its methods, taken here as two functions over a token type \<open>'tok\<close>. The calls made
  to the tokenizer are recorded, oldest first.
\<close>

record 'tok tokenizer =
  tokenize :: "string \<Rightarrow> 'tok list"
  convert_tokens_to_string :: "'tok list \<Rightarrow> string"

datatype 'tok tokenizer_call = Tokenize string | Convert_tokens_to_string "'tok list"

record 'tok DefaultPromptHandler =
  tokenizer :: "'tok tokenizer"
  model_max_length :: int
  max_length :: int

definition DefaultPromptHandler_init :: "'tok tokenizer \<Rightarrow> int \<Rightarrow> int \<Rightarrow> 'tok DefaultPromptHandler" where
  "DefaultPromptHandler_init tk mml ml = \<lparr>tokenizer = tk, model_max_length = mml, max_length = ml\<rparr>"

text \<open>The values of the returned dictionary are texts and integers.\<close>

datatype pyval = PyStr string | PyInt int

definition result_dict :: "'tok DefaultPromptHandler \<Rightarrow> string \<Rightarrow> int \<Rightarrow> int \<Rightarrow> (string \<rightharpoonup> pyval)" where
  "result_dict self resized_prompt prompt_length new_prompt_length =
     map_of
       [(''resized_prompt'', PyStr resized_prompt),
        (''prompt_length'', PyInt prompt_length),
        (''new_prompt_length'', PyInt new_prompt_length),
        (''model_max_length'', PyInt (model_max_length self)),
        (''max_length'', PyInt (max_length self))]"

text \<open>
  \<open>__call__\<close>: an empty prompt is falsy and skips the tokenizer. The result is the returned
  dictionary and the calls made to the tokenizer.
\<close>

definition DefaultPromptHandler_call ::
  "'tok DefaultPromptHandler \<Rightarrow> string \<Rightarrow> (string \<rightharpoonup> pyval) \<times> 'tok tokenizer_call list" where
  "DefaultPromptHandler_call self prompt =
     (if prompt \<noteq> [] then
        (let prompt_length = int (length (tokenize (tokenizer self) prompt))
         in if prompt_length + max_length self \<le> model_max_length self then
              (result_dict self prompt prompt_length prompt_length, [Tokenize prompt])
            else
              (let tokenized_payload = tokenize (tokenizer self) prompt;
                   cut = slice_to tokenized_payload (model_max_length self - max_length self);
                   resized_prompt = convert_tokens_to_string (tokenizer self) cut;
                   new_prompt_length = int (length cut)
               in (result_dict self resized_prompt prompt_length new_prompt_length,
                   [Tokenize prompt, Tokenize prompt, Convert_tokens_to_string cut])))
      else (result_dict self prompt 0 0, []))"

text \<open>A tokenizer for the examples: one token for each character.\<close>

definition char_tokenizer :: "char tokenizer" where
  "char_tokenizer = \<lparr>tokenize = (\<lambda>s. s), convert_tokens_to_string = (\<lambda>ts. ts)\<rparr>"

section \<open>Facts about the helpers\<close>

lemma str_in_iff: "str_in sub t \<longleftrightarrow> (\<exists>ps ss. t = ps @ sub @ ss)"
proof (induction t)
  case Nil
  show ?case by auto
next
  case (Cons c cs)
  show ?case
  proof
    assume "str_in sub (c # cs)"
    then consider "prefix sub (c # cs)" | "str_in sub cs" by auto
    then show "\<exists>ps ss. c # cs = ps @ sub @ ss"
    proof cases
      case 1
      then obtain ss where "c # cs = sub @ ss" by (auto simp: prefix_def)
      then have "c # cs = [] @ sub @ ss" by simp
      then show ?thesis by blast
    next
      case 2
      with Cons.IH obtain ps ss where "cs = ps @ sub @ ss" by blast
      then have "c # cs = (c # ps) @ sub @ ss" by simp
      then show ?thesis by blast
    qed
  next
    assume "\<exists>ps ss. c # cs = ps @ sub @ ss"
    then obtain ps ss where eq: "c # cs = ps @ sub @ ss" by blast
    show "str_in sub (c # cs)"
    proof (cases ps)
      case Nil
      with eq have "prefix sub (c # cs)" by (simp add: prefix_def)
      then show ?thesis by simp
    next
      case (Cons p ps')
      with eq have "cs = ps' @ sub @ ss" by simp
      with Cons.IH have "str_in sub cs" by blast
      then show ?thesis by simp
    qed
  qed
qed

lemma prefix_str_in: "prefix sub t \<Longrightarrow> str_in sub t"
  by (cases t) auto

lemma str_in_Nil: "str_in [] t"
  by (simp add: prefix_str_in)

lemma slice_from_length: "slice_from xs (int n) = drop n xs"
  by (simp add: slice_from_def)

lemma slice_to_nonneg: "0 \<le> n \<Longrightarrow> slice_to xs n = take (nat n) xs"
  by (simp add: slice_to_def)

lemma str_in_sublist: "str_in sub t \<longleftrightarrow> sublist sub t"
  by (simp add: str_in_iff sublist_def)

section \<open>Facts about the streaming handlers\<close>

lemma anthropic_call_fst: "fst (AnthropicTokenStreamingHandler_call self t w) =
    drop (length (previous_text (cleanup self t))) t"
  by (simp add: AnthropicTokenStreamingHandler_call_def Let_def slice_from_length)

lemma anthropic_call_self: "fst (snd (AnthropicTokenStreamingHandler_call self t w)) =
    (cleanup self t)\<lparr>previous_text := t\<rparr>"
  by (simp add: AnthropicTokenStreamingHandler_call_def Let_def)

lemma anthropic_call_world: "snd (snd (AnthropicTokenStreamingHandler_call self t w)) =
    snd (invoke (token_handler self) (drop (length (previous_text (cleanup self t))) t) w)"
  by (simp add: AnthropicTokenStreamingHandler_call_def Let_def slice_from_length cleanup_def)

lemma invoke_calls: "handler_calls (snd (invoke h x w)) = handler_calls w @ [x]"
  by (simp add: invoke_def split: prod.splits)

lemma invoke_state: "handler_state (snd (invoke h x w)) = snd (h x (handler_state w))"
  by (simp add: invoke_def split: prod.splits)

lemma cleanup_keep: "str_in (previous_text self) t \<Longrightarrow> cleanup self t = self"
  by (simp add: cleanup_def is_reused_def)

lemma cleanup_reset: "\<not> str_in (previous_text self) t \<Longrightarrow> previous_text (cleanup self t) = []"
  by (simp add: cleanup_def is_reused_def)

section \<open>Facts about the prompt handler\<close>

lemma result_dict_resized: "result_dict self r p n ''resized_prompt'' = Some (PyStr r)"
  by (simp add: result_dict_def)

lemma result_dict_prompt_length: "result_dict self r p n ''prompt_length'' = Some (PyInt p)"
  by (simp add: result_dict_def)

lemma result_dict_new_prompt_length: "result_dict self r p n ''new_prompt_length'' = Some (PyInt n)"
  by (simp add: result_dict_def)

lemma result_dict_model_max_length:
  "result_dict self r p n ''model_max_length'' = Some (PyInt (model_max_length self))"
  by (simp add: result_dict_def)

lemma result_dict_max_length:
  "result_dict self r p n ''max_length'' = Some (PyInt (max_length self))"
  by (simp add: result_dict_def)

lemma dom_result_dict:
  "dom (result_dict self r p n) =
     {''resized_prompt'', ''prompt_length'', ''new_prompt_length'', ''model_max_length'', ''max_length''}"
  unfolding result_dict_def dom_map_of_conv_image_fst by simp

lemma call_empty: "DefaultPromptHandler_call self [] = (result_dict self [] 0 0, [])"
  by (simp add: DefaultPromptHandler_call_def)

lemma call_within:
  "prompt \<noteq> [] \<Longrightarrow>
   int (length (tokenize (tokenizer self) prompt)) + max_length self \<le> model_max_length self \<Longrightarrow>
   fst (DefaultPromptHandler_call self prompt) =
     result_dict self prompt (int (length (tokenize (tokenizer self) prompt)))
       (int (length (tokenize (tokenizer self) prompt)))"
  by (simp add: DefaultPromptHandler_call_def Let_def)

lemma call_over:
  "prompt \<noteq> [] \<Longrightarrow>
   \<not> int (length (tokenize (tokenizer self) prompt)) + max_length self \<le> model_max_length self \<Longrightarrow>
   fst (DefaultPromptHandler_call self prompt) =
     result_dict self
       (convert_tokens_to_string (tokenizer self)
          (slice_to (tokenize (tokenizer self) prompt) (model_max_length self - max_length self)))
       (int (length (tokenize (tokenizer self) prompt)))
       (int (length (slice_to (tokenize (tokenizer self) prompt) (model_max_length self - max_length self))))"
  by (simp add: DefaultPromptHandler_call_def Let_def)

section \<open>Properties of the streaming handlers\<close>

text \<open>
  Claim C3: when the stored previous text is a prefix of the received text,
  \<open>AnthropicTokenStreamingHandler.__call__\<close> returns exactly the rest of the received
  text, from the length of the previous text on.
\<close>

theorem anthropic_extension_returns_suffix: 
  assumes "prefix (previous_text self) token_received"
  shows "fst (AnthropicTokenStreamingHandler_call self token_received w) =
           drop (length (previous_text self)) token_received"
proof -
  from assms have "str_in (previous_text self) token_received" by (rule prefix_str_in)
  then have "cleanup self token_received = self" by (rule cleanup_keep)
  then show ?thesis by (simp add: anthropic_call_fst)
qed

theorem anthropic_extension_returns_suffix_witness:
  "prefix ''Hello'' ''Hello world'' \<and>
   fst (AnthropicTokenStreamingHandler_call
          \<lparr>token_handler = DefaultTokenStreamingHandler_call, previous_text = ''Hello''\<rparr>
          ''Hello world'' \<lparr>handler_state = [], handler_calls = []\<rparr>) = '' world''"
proof -
  have h: "prefix (previous_text \<lparr>token_handler = DefaultTokenStreamingHandler_call, previous_text = ''Hello''\<rparr>) ''Hello world''"
    by simp
  show ?thesis using anthropic_extension_returns_suffix [OF h, of "\<lparr>handler_state = [], handler_calls = []\<rparr>"] by simp
qed

text \<open>
  Claim C4: the handler strips the previously seen text as a prefix of the received text and
  resets exactly when the previous text is no longer a prefix of it. The code does not do
  this: its guard tests whether the previous text occurs anywhere in the received text, and
  the cut is made at the length of the previous text all the same. On a fresh handler, the
  call with \<open>lo\<close> returns \<open>lo\<close> and stores it; the next call with \<open>Hello\<close> finds
  \<open>lo\<close> inside \<open>Hello\<close>, resets nothing although \<open>lo\<close> is not a prefix of
  \<open>Hello\<close>, and returns \<open>llo\<close>: the wrapped handler prints \<open>lo\<close> a second time
  and never sees \<open>He\<close>. The method's docstring promises the part of the text that has
  not been received previously.
\<close>

theorem anthropic_substring_guard_failing_input:
  "fst (AnthropicTokenStreamingHandler_call
          (AnthropicTokenStreamingHandler_init DefaultTokenStreamingHandler_call)
          ''lo'' \<lparr>handler_state = [], handler_calls = []\<rparr>) = ''lo''
   \<and> previous_text (fst (snd (AnthropicTokenStreamingHandler_call
          (AnthropicTokenStreamingHandler_init DefaultTokenStreamingHandler_call)
          ''lo'' \<lparr>handler_state = [], handler_calls = []\<rparr>))) = ''lo''
   \<and> \<not> prefix ''lo'' ''Hello''
   \<and> \<not> is_reused (fst (snd (AnthropicTokenStreamingHandler_call
          (AnthropicTokenStreamingHandler_init DefaultTokenStreamingHandler_call)
          ''lo'' \<lparr>handler_state = [], handler_calls = []\<rparr>))) ''Hello''
   \<and> fst (AnthropicTokenStreamingHandler_call
          (fst (snd (AnthropicTokenStreamingHandler_call
             (AnthropicTokenStreamingHandler_init DefaultTokenStreamingHandler_call)
             ''lo'' \<lparr>handler_state = [], handler_calls = []\<rparr>)))
          ''Hello''
          (snd (snd (AnthropicTokenStreamingHandler_call
             (AnthropicTokenStreamingHandler_init DefaultTokenStreamingHandler_call)
             ''lo'' \<lparr>handler_state = [], handler_calls = []\<rparr>)))) = ''llo''
   \<and> handler_state (snd (snd (AnthropicTokenStreamingHandler_call
          (fst (snd (AnthropicTokenStreamingHandler_call
             (AnthropicTokenStreamingHandler_init DefaultTokenStreamingHandler_call)
             ''lo'' \<lparr>handler_state = [], handler_calls = []\<rparr>)))
          ''Hello''
          (snd (snd (AnthropicTokenStreamingHandler_call
             (AnthropicTokenStreamingHandler_init DefaultTokenStreamingHandler_call)
             ''lo'' \<lparr>handler_state = [], handler_calls = []\<rparr>)))))) = [''lo'', ''llo'']"
  by (simp add: anthropic_call_fst anthropic_call_self anthropic_call_world invoke_state
      cleanup_def is_reused_def AnthropicTokenStreamingHandler_init_def
      DefaultTokenStreamingHandler_call_def)

text \<open>
  Claim C5: when the received text does not contain the stored previous text as a substring,
  the previous text is reset, the call returns the received text in full (and forwards it in
  full to the wrapped handler), and the received text becomes the stored previous text.
\<close>

theorem anthropic_not_contained_resets:
  assumes "\<not> sublist (previous_text self) token_received"
  shows "previous_text (cleanup self token_received) = []
         \<and> fst (AnthropicTokenStreamingHandler_call self token_received w) = token_received
         \<and> previous_text (fst (snd (AnthropicTokenStreamingHandler_call self token_received w))) = token_received
         \<and> handler_calls (snd (snd (AnthropicTokenStreamingHandler_call self token_received w))) =
             handler_calls w @ [token_received]"
proof -
  from assms have r: "previous_text (cleanup self token_received) = []"
    by (simp add: cleanup_reset str_in_sublist)
  then show ?thesis by (simp add: anthropic_call_fst anthropic_call_self anthropic_call_world invoke_calls)
qed

theorem anthropic_not_contained_resets_witness:
  "\<not> sublist ''Hello'' ''Bye''
   \<and> fst (AnthropicTokenStreamingHandler_call
          \<lparr>token_handler = DefaultTokenStreamingHandler_call, previous_text = ''Hello''\<rparr>
          ''Bye'' \<lparr>handler_state = [], handler_calls = []\<rparr>) = ''Bye''
   \<and> previous_text (fst (snd (AnthropicTokenStreamingHandler_call
          \<lparr>token_handler = DefaultTokenStreamingHandler_call, previous_text = ''Hello''\<rparr>
          ''Bye'' \<lparr>handler_state = [], handler_calls = []\<rparr>))) = ''Bye''"
proof -
  have h: "\<not> sublist (previous_text \<lparr>token_handler = DefaultTokenStreamingHandler_call, previous_text = ''Hello''\<rparr>) ''Bye''"
    by (simp add: str_in_sublist [symmetric])
  show ?thesis using h anthropic_not_contained_resets [OF h, of "\<lparr>handler_state = [], handler_calls = []\<rparr>"]
    by simp
qed

text \<open>
  Claim C6: the first call to a freshly constructed \<open>AnthropicTokenStreamingHandler\<close>,
  whose previous text is empty, returns its argument in full, for every text.
\<close>

theorem anthropic_first_call_returns_all:
  "fst (AnthropicTokenStreamingHandler_call (AnthropicTokenStreamingHandler_init h) t w) = t"
  by (simp add: anthropic_call_fst cleanup_def is_reused_def AnthropicTokenStreamingHandler_init_def str_in_Nil)

text \<open>
  Claim C8: \<open>HFTokenStreamingHandler.on_finalized_text\<close> calls the wrapped handler exactly
  once, with the finalized text, to which a newline is appended if and only if
  \<open>stream_end\<close> is true.
\<close>

theorem hf_forwards_once:
  "\<exists>sent. handler_calls (on_finalized_text self token stream_end w) = handler_calls w @ [sent]
     \<and> handler_state (on_finalized_text self token stream_end w) =
         snd (hf_token_handler self sent (handler_state w))
     \<and> (sent = token @ [CHR 0x0A] \<longleftrightarrow> stream_end)
     \<and> (sent = token \<longleftrightarrow> \<not> stream_end)"
  by (cases stream_end) (simp_all add: on_finalized_text_def invoke_calls invoke_state)

text \<open>
  Claim C10: after every call to \<open>AnthropicTokenStreamingHandler.__call__\<close> the stored
  previous text is the argument of that call, and the returned text is the text that was
  forwarded to the wrapped handler, which was called once.
\<close>

theorem anthropic_stores_argument_returns_forwarded:
  "previous_text (fst (snd (AnthropicTokenStreamingHandler_call self token_received w))) = token_received
   \<and> handler_calls (snd (snd (AnthropicTokenStreamingHandler_call self token_received w))) =
       handler_calls w @ [fst (AnthropicTokenStreamingHandler_call self token_received w)]
   \<and> handler_state (snd (snd (AnthropicTokenStreamingHandler_call self token_received w))) =
       snd (token_handler self (fst (AnthropicTokenStreamingHandler_call self token_received w)) (handler_state w))
   \<and> token_handler (fst (snd (AnthropicTokenStreamingHandler_call self token_received w))) = token_handler self"
  by (simp add: anthropic_call_fst anthropic_call_self anthropic_call_world invoke_calls invoke_state cleanup_def)

section \<open>Properties of the prompt handler\<close>

text \<open>
  Claim C1 as it is written fails when \<open>max_length\<close> exceeds \<open>model_max_length\<close>.
  The bound \<open>model_max_length - max_length\<close> of the slice is then negative and counts
  from the end of the token list. With one token for each character, \<open>model_max_length = 5\<close>
  and \<open>max_length = 7\<close>, the prompt \<open>abcdef\<close> (six tokens, over the budget) comes back as
  \<open>abcd\<close> with \<open>new_prompt_length = 4\<close>, which is not \<open>5 - 7\<close>.
\<close>

theorem prompt_handler_truncation_counterexample:
  "''abcdef'' \<noteq> []
   \<and> \<not> int (length (tokenize char_tokenizer ''abcdef'')) + 7 \<le> 5
   \<and> fst (DefaultPromptHandler_call (DefaultPromptHandler_init char_tokenizer 5 7) ''abcdef'')
        ''resized_prompt'' = Some (PyStr ''abcd'')
   \<and> fst (DefaultPromptHandler_call (DefaultPromptHandler_init char_tokenizer 5 7) ''abcdef'')
        ''new_prompt_length'' = Some (PyInt 4)
   \<and> fst (DefaultPromptHandler_call (DefaultPromptHandler_init char_tokenizer 5 7) ''abcdef'')
        ''new_prompt_length'' \<noteq> Some (PyInt (5 - 7))"
  by (simp add: DefaultPromptHandler_call_def DefaultPromptHandler_init_def char_tokenizer_def
      result_dict_def slice_to_def Let_def)

text \<open>
  Claim C1, amended: for every non-empty prompt, when \<open>max_length\<close> is at most
  \<open>model_max_length\<close>, \<open>DefaultPromptHandler.__call__\<close> returns the prompt unchanged as
  \<open>resized_prompt\<close> if the prompt's token count plus \<open>max_length\<close> is at most
  \<open>model_max_length\<close>; otherwise \<open>resized_prompt\<close> is the text that the tokenizer
  converts back from the first \<open>model_max_length - max_length\<close> tokens of the tokenized
  prompt, and \<open>new_prompt_length\<close> is \<open>model_max_length - max_length\<close>.
\<close>

theorem prompt_handler_truncation:
  assumes "prompt \<noteq> []" and "max_length self \<le> model_max_length self"
  shows "if int (length (tokenize (tokenizer self) prompt)) + max_length self \<le> model_max_length self
         then fst (DefaultPromptHandler_call self prompt) ''resized_prompt'' = Some (PyStr prompt)
         else fst (DefaultPromptHandler_call self prompt) ''resized_prompt'' =
                Some (PyStr (convert_tokens_to_string (tokenizer self)
                  (take (nat (model_max_length self - max_length self)) (tokenize (tokenizer self) prompt))))
              \<and> fst (DefaultPromptHandler_call self prompt) ''new_prompt_length'' =
                  Some (PyInt (model_max_length self - max_length self))"
proof (cases "int (length (tokenize (tokenizer self) prompt)) + max_length self \<le> model_max_length self")
  case True
  with assms(1) show ?thesis by (simp add: call_within result_dict_resized)
next
  case False
  from assms(2) have k: "0 \<le> model_max_length self - max_length self" by simp
  from False k have "nat (model_max_length self - max_length self) \<le> length (tokenize (tokenizer self) prompt)"
    by linarith
  then have len: "int (length (take (nat (model_max_length self - max_length self)) (tokenize (tokenizer self) prompt)))
      = model_max_length self - max_length self"
    using k by (simp add: min_def)
  have sl: "slice_to (tokenize (tokenizer self) prompt) (model_max_length self - max_length self)
      = take (nat (model_max_length self - max_length self)) (tokenize (tokenizer self) prompt)"
    using k by (rule slice_to_nonneg)
  have "fst (DefaultPromptHandler_call self prompt) ''resized_prompt'' =
                Some (PyStr (convert_tokens_to_string (tokenizer self)
                  (take (nat (model_max_length self - max_length self)) (tokenize (tokenizer self) prompt))))"
    by (simp only: call_over [OF assms(1) False] result_dict_resized sl)
  moreover have "fst (DefaultPromptHandler_call self prompt) ''new_prompt_length'' =
                  Some (PyInt (model_max_length self - max_length self))"
    by (simp only: call_over [OF assms(1) False] result_dict_new_prompt_length sl len)
  ultimately show ?thesis using False by simp
qed

theorem prompt_handler_truncation_witness:
  "''abc'' \<noteq> [] \<and> (2::int) \<le> 10
   \<and> fst (DefaultPromptHandler_call (DefaultPromptHandler_init char_tokenizer 10 2) ''abc'')
        ''resized_prompt'' = Some (PyStr ''abc'')
   \<and> ''abcdef'' \<noteq> [] \<and> (2::int) \<le> 5
   \<and> fst (DefaultPromptHandler_call (DefaultPromptHandler_init char_tokenizer 5 2) ''abcdef'')
        ''resized_prompt'' = Some (PyStr ''abc'')
   \<and> fst (DefaultPromptHandler_call (DefaultPromptHandler_init char_tokenizer 5 2) ''abcdef'')
        ''new_prompt_length'' = Some (PyInt 3)"
proof -
  have a: "''abc'' \<noteq> []" and b: "''abcdef'' \<noteq> []" by simp_all
  have c: "max_length (DefaultPromptHandler_init char_tokenizer 10 2)
             \<le> model_max_length (DefaultPromptHandler_init char_tokenizer 10 2)"
    by (simp add: DefaultPromptHandler_init_def)
  have d: "max_length (DefaultPromptHandler_init char_tokenizer 5 2)
             \<le> model_max_length (DefaultPromptHandler_init char_tokenizer 5 2)"
    by (simp add: DefaultPromptHandler_init_def)
  show ?thesis
    using prompt_handler_truncation [OF a c] prompt_handler_truncation [OF b d]
    by (simp add: DefaultPromptHandler_init_def char_tokenizer_def)
qed

text \<open>
  Claim C2 as it is written fails when \<open>max_length\<close> exceeds \<open>model_max_length\<close>: no
  length fits such a budget. With one token for each character, \<open>model_max_length = 5\<close> and
  \<open>max_length = 10\<close>, the prompt \<open>abc\<close> gets \<open>new_prompt_length = 0\<close>, and
  \<open>0 + 10\<close> is above \<open>5\<close>.
\<close>

theorem prompt_handler_fits_budget_counterexample:
  "''abc'' \<noteq> []
   \<and> fst (DefaultPromptHandler_call (DefaultPromptHandler_init char_tokenizer 5 10) ''abc'')
        ''new_prompt_length'' = Some (PyInt 0)
   \<and> \<not> 0 + max_length (DefaultPromptHandler_init char_tokenizer 5 10)
          \<le> model_max_length (DefaultPromptHandler_init char_tokenizer 5 10)"
  by (simp add: DefaultPromptHandler_call_def DefaultPromptHandler_init_def char_tokenizer_def
      result_dict_def slice_to_def Let_def)

text \<open>
  Claim C2, amended: for every non-empty prompt and every configuration in which
  \<open>max_length\<close> is at most \<open>model_max_length\<close>, the \<open>new_prompt_length\<close> reported by
  \<open>DefaultPromptHandler.__call__\<close> plus \<open>max_length\<close> is at most \<open>model_max_length\<close>.
\<close>

theorem prompt_handler_fits_budget:
  assumes "prompt \<noteq> []" and "max_length self \<le> model_max_length self"
  shows "\<exists>n. fst (DefaultPromptHandler_call self prompt) ''new_prompt_length'' = Some (PyInt n)
           \<and> n + max_length self \<le> model_max_length self"
proof (cases "int (length (tokenize (tokenizer self) prompt)) + max_length self \<le> model_max_length self")
  case True
  with assms(1) show ?thesis by (simp add: call_within result_dict_new_prompt_length)
next
  case False
  from assms(2) have k: "0 \<le> model_max_length self - max_length self" by simp
  have "int (length (slice_to (tokenize (tokenizer self) prompt) (model_max_length self - max_length self)))
          \<le> model_max_length self - max_length self"
    using k by (simp add: slice_to_nonneg)
  with False assms(1) show ?thesis
    by (simp add: call_over result_dict_new_prompt_length)
qed

theorem prompt_handler_fits_budget_witness:
  "''abcdef'' \<noteq> [] \<and> (2::int) \<le> 5
   \<and> fst (DefaultPromptHandler_call (DefaultPromptHandler_init char_tokenizer 5 2) ''abcdef'')
        ''new_prompt_length'' = Some (PyInt 3) \<and> (3::int) + 2 \<le> 5"
proof -
  have a: "''abcdef'' \<noteq> []" by simp
  have d: "max_length (DefaultPromptHandler_init char_tokenizer 5 2)
             \<le> model_max_length (DefaultPromptHandler_init char_tokenizer 5 2)"
    by (simp add: DefaultPromptHandler_init_def)
  have v: "fst (DefaultPromptHandler_call (DefaultPromptHandler_init char_tokenizer 5 2) ''abcdef'')
        ''new_prompt_length'' = Some (PyInt 3)"
    by (simp add: DefaultPromptHandler_call_def DefaultPromptHandler_init_def char_tokenizer_def
      result_dict_def slice_to_def Let_def)
  show ?thesis
    using prompt_handler_fits_budget [OF a d] v by simp
qed

text \<open>
  Claim C7: for every prompt, the dictionary returned by \<open>DefaultPromptHandler.__call__\<close>
  has exactly five keys. \<open>resized_prompt\<close> holds the resized text: the prompt itself when
  it is empty or within the budget, otherwise the text converted back from the cut token
  list. \<open>prompt_length\<close> holds the token count of the prompt (0 for the empty prompt,
  which is not tokenized). \<open>new_prompt_length\<close> holds the new token count: 0 for the
  empty prompt, the token count of the prompt within the budget, otherwise the length of the
  cut token list. \<open>model_max_length\<close> and \<open>max_length\<close> hold the two configured values.
\<close>

theorem prompt_handler_dict_shape:
  "dom (fst (DefaultPromptHandler_call self prompt)) =
     {''resized_prompt'', ''prompt_length'', ''new_prompt_length'', ''model_max_length'', ''max_length''}
   \<and> fst (DefaultPromptHandler_call self prompt) ''resized_prompt'' =
       Some (PyStr
         (if prompt = []
             \<or> int (length (tokenize (tokenizer self) prompt)) + max_length self \<le> model_max_length self
          then prompt
          else convert_tokens_to_string (tokenizer self)
                 (slice_to (tokenize (tokenizer self) prompt) (model_max_length self - max_length self))))
   \<and> fst (DefaultPromptHandler_call self prompt) ''prompt_length'' =
       Some (PyInt (if prompt = [] then 0 else int (length (tokenize (tokenizer self) prompt))))
   \<and> fst (DefaultPromptHandler_call self prompt) ''new_prompt_length'' =
       Some (PyInt
         (if prompt = [] then 0
          else if int (length (tokenize (tokenizer self) prompt)) + max_length self \<le> model_max_length self
          then int (length (tokenize (tokenizer self) prompt))
          else int (length
                 (slice_to (tokenize (tokenizer self) prompt) (model_max_length self - max_length self)))))
   \<and> fst (DefaultPromptHandler_call self prompt) ''model_max_length'' = Some (PyInt (model_max_length self))
   \<and> fst (DefaultPromptHandler_call self prompt) ''max_length'' = Some (PyInt (max_length self))"
proof (cases "prompt = []")
  case True
  then have d: "fst (DefaultPromptHandler_call self prompt) = result_dict self [] 0 0"
    by (simp add: call_empty)
  show ?thesis
    unfolding d
    by (simp only: dom_result_dict result_dict_resized result_dict_prompt_length
        result_dict_new_prompt_length result_dict_model_max_length result_dict_max_length True)
       simp
next
  case False
  show ?thesis
  proof (cases "int (length (tokenize (tokenizer self) prompt)) + max_length self \<le> model_max_length self")
    case True
    show ?thesis
      unfolding call_within [OF False True]
      by (simp only: dom_result_dict result_dict_resized result_dict_prompt_length
          result_dict_new_prompt_length result_dict_model_max_length result_dict_max_length)
         (simp add: False True)
  next
    case over: False
    show ?thesis
      unfolding call_over [OF False over]
      by (simp only: dom_result_dict result_dict_resized result_dict_prompt_length
          result_dict_new_prompt_length result_dict_model_max_length result_dict_max_length)
         (simp add: False over)
  qed
qed

text \<open>
  Claim C9: for the empty prompt, \<open>DefaultPromptHandler.__call__\<close> makes no call to the
  tokenizer and returns the prompt unchanged as \<open>resized_prompt\<close>, with
  \<open>prompt_length\<close> and \<open>new_prompt_length\<close> both 0.
\<close>

theorem prompt_handler_empty_prompt:
  "snd (DefaultPromptHandler_call self []) = []
   \<and> fst (DefaultPromptHandler_call self []) ''resized_prompt'' = Some (PyStr [])
   \<and> fst (DefaultPromptHandler_call self []) ''prompt_length'' = Some (PyInt 0)
   \<and> fst (DefaultPromptHandler_call self []) ''new_prompt_length'' = Some (PyInt 0)"
  by (simp add: call_empty result_dict_resized result_dict_prompt_length result_dict_new_prompt_length)

end
